theory Spec2Isabelle
  imports Complex_Main "HOL-Library.AList"
begin

section \<open>Numbers and dates\<close>

text \<open>
  The pipeline computes with Python and numpy floats. Sums, quotients and comparisons are
  modelled as exact rational arithmetic; a missing value (\<^verbatim>\<open>NaN\<close>, \<^verbatim>\<open>NaT\<close>,
  \<^verbatim>\<open>None\<close>) is \<open>None\<close> of an option type. \<^verbatim>\<open>round(x, 1)\<close> rounds to one
  decimal, ties to even.
\<close>

definition round_half_even :: "rat \<Rightarrow> int" where
  "round_half_even x =
     (let f = \<lfloor>x\<rfloor>; r = x - of_int f
      in if r < 1 / 2 then f else if 1 / 2 < r then f + 1
         else if even f then f else f + 1)"

definition round1 :: "rat \<Rightarrow> rat" where
  "round1 x = of_int (round_half_even (x * 10)) / 10"

definition round0 :: "rat \<Rightarrow> rat" where
  "round0 x = of_int (round_half_even x)"

text \<open>\<^verbatim>\<open>int(x)\<close> on a float truncates towards zero.\<close>

definition py_int :: "rat \<Rightarrow> int" where
  "py_int x = (if 0 \<le> x then \<lfloor>x\<rfloor> else \<lceil>x\<rceil>)"

datatype error = ZeroDivisionError

text \<open>Division: a zero divisor is an error value, so that reaching one is visible.\<close>

definition py_div :: "rat \<Rightarrow> rat \<Rightarrow> error + rat" where
  "py_div a b = (if b = 0 then Inl ZeroDivisionError else Inr (a / b))"

definition bind_err :: "error + 'a \<Rightarrow> ('a \<Rightarrow> error + 'b) \<Rightarrow> error + 'b" where
  "bind_err r f = (case r of Inl e \<Rightarrow> Inl e | Inr v \<Rightarrow> f v)"

text \<open>The expression \<^verbatim>\<open>round(a / b * 100, 1)\<close>.\<close>

definition pct_of :: "rat \<Rightarrow> rat \<Rightarrow> error + rat" where
  "pct_of a b = bind_err (py_div a b) (\<lambda>q. Inr (round1 (q * 100)))"

text \<open>
  A \<^verbatim>\<open>datetime.date\<close> is its proleptic Gregorian ordinal (\<^verbatim>\<open>date.toordinal()\<close>: 1
  is 1 January of year 1); adding \<^verbatim>\<open>timedelta(days=k)\<close> adds \<open>k\<close>, and
  \<^verbatim>\<open>weekday()\<close> is 0 for Monday up to 6 for Sunday.
\<close>

definition is_leap :: "int \<Rightarrow> bool" where
  "is_leap y = (y mod 4 = 0 \<and> (y mod 100 \<noteq> 0 \<or> y mod 400 = 0))"

definition days_before_year :: "int \<Rightarrow> int" where
  "days_before_year y = (y - 1) * 365 + (y - 1) div 4 - (y - 1) div 100 + (y - 1) div 400"

definition days_before_month :: "int \<Rightarrow> int \<Rightarrow> int" where
  "days_before_month y m =
     sum_list (take (nat (m - 1)) [31, if is_leap y then 29 else 28, 31, 30, 31, 30, 31, 31, 30, 31, 30, 31])"

definition date :: "int \<Rightarrow> int \<Rightarrow> int \<Rightarrow> int" where
  "date y m d = days_before_year y + days_before_month y m + d"

definition weekday :: "int \<Rightarrow> int" where
  "weekday d = (d + 6) mod 7"

section \<open>Constants of \<^verbatim>\<open>generate_crm.py\<close>\<close>

definition START_DATE :: int where
  "START_DATE = date 2025 8 14"

definition END_DATE :: int where
  "END_DATE = date 2026 1 23"

definition EXPECTED_DAILY_MINUTES :: int where
  "EXPECTED_DAILY_MINUTES = 25"

definition PASS_THRESHOLD :: rat where
  "PASS_THRESHOLD = 179 / 2"

section \<open>App categorisation\<close>

definition INSTRUCTION_APPS :: "string set" where
  "INSTRUCTION_APPS = {''MobyMax''}"

definition PRACTICE_APPS :: "string set" where
  "PRACTICE_APPS = {''Alpha Read''}"

definition TESTING_APPS :: "string set" where
  "TESTING_APPS = {''Mastery Track'', ''100 for 100'', ''Alpha Tests'', ''100x100'', ''100 for 100''}"

definition EARLY_LIT_APPS :: "string set" where
  "EARLY_LIT_APPS = {''Anton'', ''ClearFluency'', ''Clear Fluency'', ''Amplify'', ''Mentava'',
     ''Literably'', ''Lalilo'', ''Lexia Core5'', ''FastPhonics'', ''TeachTales'', ''AlphaLiteracy''}"

definition ADMIN_APPS :: "string set" where
  "ADMIN_APPS = {''Manual XP Assign'', ''Manual XP'', ''Timeback UI'', ''TimeBack Dash'',
     ''Acely SAT'', ''AlphaLearn'', ''Alpha Timeback'', ''Timeback Learn''}"

text \<open>\<^verbatim>\<open>categorize_app\<close> of \<^verbatim>\<open>generate_crm.py\<close>; the result is the category string.\<close>

definition categorize_app :: "string \<Rightarrow> string" where
  "categorize_app app_name =
     (if app_name \<in> INSTRUCTION_APPS then ''Instruction''
      else if app_name \<in> PRACTICE_APPS then ''Practice''
      else if app_name \<in> TESTING_APPS then ''Testing''
      else if app_name \<in> EARLY_LIT_APPS then ''Early Lit''
      else if app_name \<in> ADMIN_APPS then ''Admin/Other''
      else ''Admin/Other'')"

text \<open>
  The tables and \<^verbatim>\<open>categorize_app\<close> of the stand-alone script
  \<^verbatim>\<open>analyze_low_growth.py\<close>, which has no Practice category.
\<close>

definition INSTRUCTION_APPS_low_growth :: "string set" where
  "INSTRUCTION_APPS_low_growth = {''Alpha Read'', ''MobyMax''}"

definition TESTING_APPS_low_growth :: "string set" where
  "TESTING_APPS_low_growth = {''Mastery Track'', ''100 for 100'', ''Alpha Tests'', ''100x100''}"

definition EARLY_LIT_APPS_low_growth :: "string set" where
  "EARLY_LIT_APPS_low_growth = {''Anton'', ''ClearFluency'', ''Amplify'', ''Mentava'', ''Literably'',
     ''Lalilo'', ''Lexia Core5'', ''FastPhonics'', ''TeachTales''}"

definition ADMIN_APPS_low_growth :: "string set" where
  "ADMIN_APPS_low_growth = {''Manual XP Assign'', ''Timeback UI'', ''TimeBack Dash'', ''Manual XP'',
     ''Acely SAT'', ''AlphaLearn''}"

definition categorize_app_low_growth :: "string \<Rightarrow> string" where
  "categorize_app_low_growth app_name =
     (if app_name \<in> INSTRUCTION_APPS_low_growth then ''Instruction''
      else if app_name \<in> TESTING_APPS_low_growth then ''Testing''
      else if app_name \<in> EARLY_LIT_APPS_low_growth then ''Early Lit''
      else if app_name \<in> ADMIN_APPS_low_growth then ''Admin/Other''
      else ''Unknown'')"

section \<open>School day calculation\<close>

text \<open>
  \<^verbatim>\<open>compute_school_days\<close> reads the module constants \<^verbatim>\<open>START_DATE\<close> and
  \<^verbatim>\<open>END_DATE\<close>; here they are its two parameters. The loop
  \<^verbatim>\<open>while d <= END_DATE\<close> collects the weekdays of the term.
\<close>

function all_days_from :: "int \<Rightarrow> int \<Rightarrow> int list \<Rightarrow> int list" where
  "all_days_from d end_date all_days =
     (if d \<le> end_date
      then all_days_from (d + 1) end_date (if weekday d < 5 then all_days @ [d] else all_days)
      else all_days)"
  by pat_completeness auto
termination
  by (relation "measure (\<lambda>(d, end_date, all_days). nat (end_date - d + 1))") auto

definition non_school :: "int set" where
  "non_school =
     set (map (\<lambda>d_offset. date 2025 8 19 + d_offset) [0..3])
     \<union> set (map (\<lambda>d_offset. date 2025 8 26 + d_offset) [0..3])
     \<union> {date 2025 9 1}
     \<union> set (map (\<lambda>d_offset. date 2025 10 6 + d_offset) [0..4])
     \<union> set (map (\<lambda>d_offset. date 2025 11 24 + d_offset) [0..4])
     \<union> set (filter (\<lambda>day. weekday day < 5) (map (\<lambda>d_offset. date 2025 12 22 + d_offset) [0..11]))
     \<union> {date 2026 1 19}"

definition compute_school_days :: "int \<Rightarrow> int \<Rightarrow> int \<times> int \<times> int list" where
  "compute_school_days start_date end_date =
     (let all_days = all_days_from start_date end_date [];
          non_school_weekdays = {d \<in> non_school. weekday d < 5 \<and> start_date \<le> d \<and> d \<le> end_date};
          school_days = filter (\<lambda>d. d \<notin> non_school_weekdays) all_days;
          effective_days = int (length school_days) - 1;
          expected_minutes = effective_days * EXPECTED_DAILY_MINUTES
      in (effective_days, expected_minutes, school_days))"

section \<open>Input rows\<close>

text \<open>
  The columns read by the modelled part of the pipeline. A row of the MAP analysis sheet
  (numeric columns are coerced, so a missing or non-numeric cell is \<open>None\<close>):
\<close>

record map_row =
  Email :: string
  Level :: string
  HMG :: "rat option"
  Age_Grade :: "rat option"
  Growth_FW :: "rat option"

text \<open>
  A row of the daily metrics export; minutes and XP are coerced with \<^verbatim>\<open>fillna(0)\<close>,
  the app name may be missing.
\<close>

record daily_row =
  app :: "string option"
  Active_Minutes :: rat
  XP_Earned :: rat

text \<open>
  A row of the test results export. Test grades are whole grade levels (on them
  \<^verbatim>\<open>int(g)\<close> is the identity); \<^verbatim>\<open>score_date_utc\<close> is the day of the timestamp.
\<close>

record result_row =
  student_email :: string
  subject :: string
  score :: "rat option"
  test_grade :: "int option"
  score_date_utc :: "int option"

section \<open>Loading the test results\<close>

definition load_reading_results :: "result_row list \<Rightarrow> result_row list" where
  "load_reading_results df =
     filter (\<lambda>r. case score_date_utc r of None \<Rightarrow> False | Some d \<Rightarrow> date 2025 8 14 \<le> d)
       (filter (\<lambda>r. subject r = ''Reading'') df)"

text \<open>The lookup \<^verbatim>\<open>results_by_email.get(email, pd.DataFrame())\<close> of \<^verbatim>\<open>main\<close>.\<close>

definition results_by_email :: "result_row list \<Rightarrow> string \<Rightarrow> result_row list" where
  "results_by_email results_df em = filter (\<lambda>r. student_email r = em) results_df"

section \<open>Per-student metric computation\<close>

record student_metrics =
  email :: string
  level :: string
  hmg :: "rat option"
  growth :: "rat option"
  gap :: "rat option"
  has_daily_data :: bool
  total_active_minutes :: rat
  total_xp :: rat
  pct_expected :: rat
  daily_avg :: rat
  instr_xp :: rat
  practice_xp :: rat
  testing_xp :: rat
  elit_xp :: rat
  admin_xp :: rat
  pct_instr :: rat
  pct_practice :: rat
  pct_testing :: rat
  has_test_data :: bool
  total_tests :: nat
  eff_tests :: nat
  eff_rate :: rat
  hmg_plus1_total :: nat
  hmg_plus1_passed :: nat
  hmg_plus1_eff_rate :: rat
  doom_grades :: "int list"
  doom_loop_above_hmg :: bool
  issues :: "string list"

subsection \<open>XP per category\<close>

text \<open>
  \<^verbatim>\<open>daily_data.groupby('app')\<close> with the XP summed: one entry per app name, rows
  without an app name left out. (pandas orders the groups by name; the sums below do not
  depend on the order.)
\<close>

fun add_to_group :: "string \<Rightarrow> rat \<Rightarrow> (string \<times> rat) list \<Rightarrow> (string \<times> rat) list" where
  "add_to_group a x [] = [(a, x)]"
| "add_to_group a x ((b, y) # gs) =
     (if a = b then (b, y + x) # gs else (b, y) # add_to_group a x gs)"

definition app_groups :: "daily_row list \<Rightarrow> (string \<times> rat) list" where
  "app_groups daily_data =
     foldl (\<lambda>gs r. case app r of None \<Rightarrow> gs | Some a \<Rightarrow> add_to_group a (XP_Earned r) gs) [] daily_data"

record xp_acc =
  acc_instr :: rat
  acc_practice :: rat
  acc_testing :: rat
  acc_elit :: rat
  acc_admin :: rat

text \<open>The body of the loop over the app groups.\<close>

definition add_app_xp :: "xp_acc \<Rightarrow> string \<times> rat \<Rightarrow> xp_acc" where
  "add_app_xp acc ag =
     (let cat = categorize_app (fst ag); xp_val = snd ag
      in if cat = ''Instruction'' then acc\<lparr>acc_instr := acc_instr acc + xp_val\<rparr>
         else if cat = ''Practice'' then acc\<lparr>acc_practice := acc_practice acc + xp_val\<rparr>
         else if cat = ''Testing'' then acc\<lparr>acc_testing := acc_testing acc + xp_val\<rparr>
         else if cat = ''Early Lit'' then acc\<lparr>acc_elit := acc_elit acc + xp_val\<rparr>
         else acc\<lparr>acc_admin := acc_admin acc + xp_val\<rparr>)"

definition category_xp :: "daily_row list \<Rightarrow> xp_acc" where
  "category_xp daily_data =
     (let zero = \<lparr>acc_instr = 0, acc_practice = 0, acc_testing = 0, acc_elit = 0, acc_admin = 0\<rparr>
      in if daily_data \<noteq> [] then foldl add_app_xp zero (app_groups daily_data) else zero)"

subsection \<open>Test results\<close>

definition passed :: "result_row \<Rightarrow> bool" where
  "passed tr = (case score tr of None \<Rightarrow> False | Some s \<Rightarrow> PASS_THRESHOLD \<le> s)"

text \<open>The mask \<^verbatim>\<open>test_data['score'] < PASS_THRESHOLD\<close>, false on a missing score.\<close>

definition below_threshold :: "result_row \<Rightarrow> bool" where
  "below_threshold tr = (case score tr of None \<Rightarrow> False | Some s \<Rightarrow> s < PASS_THRESHOLD)"

text \<open>
  \<^verbatim>\<open>groupby('test_grade').size()\<close> over the failed rows: the grades in ascending
  order, each with its number of failed rows; rows without a grade are left out.
\<close>

definition grade_fails :: "result_row list \<Rightarrow> (int \<times> nat) list" where
  "grade_fails test_data =
     (let fails = filter below_threshold test_data
      in map (\<lambda>g. (g, length (filter (\<lambda>tr. test_grade tr = Some g) fails)))
           (sort (remdups (List.map_filter test_grade fails))))"

definition grades_passed :: "result_row list \<Rightarrow> int set" where
  "grades_passed test_data = set (List.map_filter test_grade (filter passed test_data))"

definition doom_grades_of :: "result_row list \<Rightarrow> int list" where
  "doom_grades_of test_data =
     (if test_data \<noteq> []
      then filter (\<lambda>g. g \<notin> grades_passed test_data)
             (map fst (filter (\<lambda>gn. 3 \<le> snd gn) (grade_fails test_data)))
      else [])"

text \<open>\<^verbatim>\<open>passed_tests['test_grade'].max()\<close>: missing grades are skipped.\<close>

definition max_test_grade :: "result_row list \<Rightarrow> int option" where
  "max_test_grade rows =
     (case List.map_filter test_grade rows of [] \<Rightarrow> None | g # gs \<Rightarrow> Some (fold max gs g))"

text \<open>The HMG fallback: a missing or very low MAP HMG may be replaced from the test results.\<close>

definition resolve_hmg :: "rat option \<Rightarrow> result_row list \<Rightarrow> rat option" where
  "resolve_hmg hmg0 test_data =
     (if (case hmg0 of None \<Rightarrow> True | Some h \<Rightarrow> h \<le> 1) \<and> test_data \<noteq> [] then
        (let passed_tests = filter passed test_data
         in if 0 < length passed_tests then
              (let test_hmg = max_test_grade passed_tests
               in if (case hmg0 of None \<Rightarrow> True
                      | Some h \<Rightarrow> (case test_hmg of None \<Rightarrow> False | Some t \<Rightarrow> h < of_int t))
                  then map_option of_int test_hmg else hmg0)
            else hmg0)
      else hmg0)"

text \<open>
  The tests at the grade above the resolved HMG: how many, and how many passed. (The
  source counts over the test history sorted by date, which does not change the counts.)
\<close>

definition hmg_plus1_counts :: "rat option \<Rightarrow> result_row list \<Rightarrow> nat \<times> nat" where
  "hmg_plus1_counts h test_data =
     (case h of
        None \<Rightarrow> (0, 0)
      | Some v \<Rightarrow>
          if test_data \<noteq> [] then
            (let target_grade = py_int v + 1
             in (length (filter (\<lambda>t. test_grade t = Some target_grade) test_data),
                 length (filter (\<lambda>t. test_grade t = Some target_grade \<and> passed t) test_data)))
          else (0, 0))"

subsection \<open>Issue detection\<close>

definition instruction_issues :: "rat option \<Rightarrow> bool \<Rightarrow> (string \<times> rat) list \<Rightarrow> string list" where
  "instruction_issues h has_daily app_breakdown =
     (case h of
        None \<Rightarrow> []
      | Some v \<Rightarrow>
          if 8 \<le> v then [''NEEDS_HS_INSTRUCTION'']
          else if 2 \<le> v \<and> v \<le> 7 then
            (let ever_enrolled_mm = (''MobyMax'' \<in> set (map fst app_breakdown))
             in if \<not> ever_enrolled_mm \<and> has_daily then [''NEEDS_MM_INSTRUCTION''] else [])
          else [])"

definition doom_above_hmg :: "rat option \<Rightarrow> int list \<Rightarrow> bool" where
  "doom_above_hmg h dg =
     (dg \<noteq> [] \<and> (case h of None \<Rightarrow> True | Some v \<Rightarrow> list_ex (\<lambda>g. py_int v < g) dg))"

definition detect_issues ::
  "rat option \<Rightarrow> bool \<Rightarrow> (string \<times> rat) list \<Rightarrow> rat \<Rightarrow> int list \<Rightarrow> rat \<Rightarrow> rat option \<Rightarrow> rat option
     \<Rightarrow> nat \<Rightarrow> rat \<Rightarrow> string list" where
  "detect_issues h has_daily app_breakdown p_testing dg p_expected growth_fw gp hp1_total hp1_rate =
     instruction_issues h has_daily app_breakdown
     @ (if 50 < p_testing then [''OVER_TESTING''] else [])
     @ (if dg \<noteq> [] then [''DOOM_LOOP''] else [])
     @ (if p_expected < 50 then [''LOW_ENGAGEMENT''] else [])
     @ (if 100 \<le> p_expected \<and> (case growth_fw of None \<Rightarrow> False | Some g \<Rightarrow> g \<le> 0)
        then [''TIME_NO_GROWTH''] else [])
     @ (if (case gp of None \<Rightarrow> False | Some x \<Rightarrow> 0 \<le> x)
           \<and> (case growth_fw of None \<Rightarrow> False | Some g \<Rightarrow> g < 0)
        then [''AT_GRADE_NO_MOTIVATION''] else [])
     @ (if (case gp of None \<Rightarrow> False | Some x \<Rightarrow> x \<le> - 3) then [''LARGE_GAP''] else [])
     @ (if 2 < hp1_total \<and> hp1_rate < 50 then [''LOW_EFFECTIVE_TESTS''] else [])"

subsection \<open>\<^verbatim>\<open>compute_student_metrics\<close>\<close>

text \<open>
  The function, restricted to the fields above (identity and display strings, the per-day
  timeline, the test history listing and the year-over-year scores are left out). Every
  quotient goes through \<open>py_div\<close>; the result is \<open>Inl\<close> if a zero divisor is reached.
\<close>

definition compute_student_metrics ::
  "map_row \<Rightarrow> daily_row list \<Rightarrow> result_row list \<Rightarrow> int \<Rightarrow> int \<Rightarrow> error + student_metrics" where
  "compute_student_metrics row daily_data test_data effective_days expected_minutes =
     (let growth_fw = Growth_FW row;
          age_grade = Age_Grade row;
          has_daily = (0 < length daily_data);
          total_active = (if has_daily then sum_list (map Active_Minutes daily_data) else 0);
          total_xp_raw = (if has_daily then sum_list (map XP_Earned daily_data) else 0);
          app_breakdown = (if has_daily then app_groups daily_data else []);
          xp = category_xp daily_data;
          has_tests = (0 < length test_data);
          total_tests_n = (if has_tests then length test_data else 0);
          eff_tests_n = (if has_tests then length (filter passed test_data) else 0);
          dg = doom_grades_of test_data;
          h = resolve_hmg (HMG row) test_data;
          hp1 = hmg_plus1_counts h test_data;
          gp = (case h of None \<Rightarrow> None
                | Some v \<Rightarrow> (case age_grade of None \<Rightarrow> None | Some a \<Rightarrow> Some (v - a)))
      in
      bind_err (if 0 < expected_minutes then pct_of total_active (of_int expected_minutes) else Inr 0)
        (\<lambda>p_expected.
      bind_err (if 0 < effective_days
                then bind_err (py_div total_active (of_int effective_days)) (\<lambda>q. Inr (round1 q))
                else Inr 0)
        (\<lambda>d_avg.
      bind_err (if 0 < total_xp_raw then pct_of (acc_instr xp) total_xp_raw else Inr 0)
        (\<lambda>p_instr.
      bind_err (if 0 < total_xp_raw then pct_of (acc_practice xp) total_xp_raw else Inr 0)
        (\<lambda>p_practice.
      bind_err (if 0 < total_xp_raw then pct_of (acc_testing xp) total_xp_raw else Inr 0)
        (\<lambda>p_testing.
      bind_err (if 0 < total_tests_n then pct_of (of_nat eff_tests_n) (of_nat total_tests_n) else Inr 0)
        (\<lambda>e_rate.
      bind_err (if 0 < fst hp1 then pct_of (of_nat (snd hp1)) (of_nat (fst hp1)) else Inr 0)
        (\<lambda>hp1_rate.
      Inr \<lparr>email = Email row,
           level = Level row,
           hmg = h,
           growth = growth_fw,
           gap = map_option round1 gp,
           has_daily_data = has_daily,
           total_active_minutes = round1 total_active,
           total_xp = round1 total_xp_raw,
           pct_expected = p_expected,
           daily_avg = d_avg,
           instr_xp = round1 (acc_instr xp),
           practice_xp = round1 (acc_practice xp),
           testing_xp = round1 (acc_testing xp),
           elit_xp = round1 (acc_elit xp),
           admin_xp = round1 (acc_admin xp),
           pct_instr = p_instr,
           pct_practice = p_practice,
           pct_testing = p_testing,
           has_test_data = has_tests,
           total_tests = total_tests_n,
           eff_tests = eff_tests_n,
           eff_rate = e_rate,
           hmg_plus1_total = fst hp1,
           hmg_plus1_passed = snd hp1,
           hmg_plus1_eff_rate = hp1_rate,
           doom_grades = dg,
           doom_loop_above_hmg = doom_above_hmg h dg,
           issues = detect_issues h has_daily app_breakdown p_testing dg p_expected growth_fw gp
                      (fst hp1) hp1_rate\<rparr>))))))))"

section \<open>Doom loops in \<^verbatim>\<open>analyze_low_growth.py\<close>\<close>

text \<open>
  The stand-alone low-growth analysis reads a test history sheet that numbers the attempts
  at each grade and marks the effective (passed) ones.
\<close>

record test_history_row =
  Test_Grade :: "int option"
  Test_Attempt :: "int option"
  Effective_Test :: "rat option"

definition max_opt :: "int list \<Rightarrow> int option" where
  "max_opt xs = (case xs of [] \<Rightarrow> None | x # ys \<Rightarrow> Some (fold max ys x))"

text \<open>\<^verbatim>\<open>student_tests.groupby('Test Grade')['Test Attempt #'].max()\<close>\<close>

definition attempts_by_grade :: "test_history_row list \<Rightarrow> (int \<times> int option) list" where
  "attempts_by_grade student_tests =
     map (\<lambda>g. (g, max_opt (List.map_filter Test_Attempt
                     (filter (\<lambda>r. Test_Grade r = Some g) student_tests))))
       (sort (remdups (List.map_filter Test_Grade student_tests)))"

definition doom_loop_grades :: "test_history_row list \<Rightarrow> int list" where
  "doom_loop_grades student_tests =
     map fst (filter (\<lambda>ga. case snd ga of None \<Rightarrow> False | Some n \<Rightarrow> 3 \<le> n)
                (attempts_by_grade student_tests))"

section \<open>Systemic issues\<close>

datatype detail_counts =
    Testing_Counts nat nat
  | Instruction_Counts nat nat
  | Time_Counts rat int nat

text \<open>
  An entry of the ranking (title, description and colour left out). The detail counts are
  \<^verbatim>\<open>over_testing\<close> and \<^verbatim>\<open>doom_loops\<close>, or \<^verbatim>\<open>needs_hs\<close> and \<^verbatim>\<open>needs_mm\<close>, or
  \<^verbatim>\<open>avg_daily_minutes\<close>, \<^verbatim>\<open>avg_pct_expected\<close> and \<^verbatim>\<open>neg_growth_count\<close>.
\<close>

record systemic_issue =
  key :: string
  count :: nat
  avg_growth :: "rat option"
  students :: "student_metrics list"
  detail_counts :: detail_counts

text \<open>
  \<^verbatim>\<open>issue_counts[issue]\<close>: the students carrying the issue, in input order, once per
  occurrence of the issue in the student's list.
\<close>

definition issue_counts :: "student_metrics list \<Rightarrow> string \<Rightarrow> student_metrics list" where
  "issue_counts ss issue = concat (map (\<lambda>s. map (\<lambda>i. s) (filter (\<lambda>i. i = issue) (issues s))) ss)"

text \<open>
  The dict comprehension \<^verbatim>\<open>{s['email']: s for s in ...}\<close>: a later student with the
  same email replaces the earlier one and keeps its position.
\<close>

definition dict_by_email :: "student_metrics list \<Rightarrow> (string \<times> student_metrics) list" where
  "dict_by_email ss = foldl (\<lambda>d s. AList.update (email s) s d) [] ss"

definition mean :: "rat list \<Rightarrow> rat" where
  "mean xs = sum_list xs / of_nat (length xs)"

text \<open>\<^verbatim>\<open>np.nanmean\<close> over the growth values that are present, rounded; \<open>None\<close> if there are none.\<close>

definition avg_growth_of :: "student_metrics list \<Rightarrow> rat option" where
  "avg_growth_of ss =
     (let gs = List.map_filter growth ss
      in if gs = [] then None else Some (round1 (mean gs)))"

definition detect_systemic_issues :: "student_metrics list \<Rightarrow> systemic_issue list" where
  "detect_systemic_issues ss =
     (let ot_students = issue_counts ss ''OVER_TESTING'';
          dl_students = issue_counts ss ''DOOM_LOOP'';
          dl_above_hmg_students = filter doom_loop_above_hmg dl_students;
          merged_students = dict_by_email (ot_students @ dl_students);
          ranked1 =
            (if 0 < length merged_students
             then [\<lparr>key = ''OVER_TESTING_DOOM'',
                    count = length merged_students,
                    avg_growth = avg_growth_of (map snd merged_students),
                    students = map snd merged_students,
                    detail_counts = Testing_Counts (length ot_students) (length dl_above_hmg_students)\<rparr>]
             else []);
          hs_instr = issue_counts ss ''NEEDS_HS_INSTRUCTION'';
          mm_instr = issue_counts ss ''NEEDS_MM_INSTRUCTION'';
          merged_instr = dict_by_email (hs_instr @ mm_instr);
          ranked2 = ranked1 @
            (if 0 < length merged_instr
             then [\<lparr>key = ''MISSING_READING_INSTRUCTION'',
                    count = length merged_instr,
                    avg_growth = avg_growth_of (map snd merged_instr),
                    students = map snd merged_instr,
                    detail_counts = Instruction_Counts (length hs_instr) (length mm_instr)\<rparr>]
             else []);
          tng_students = issue_counts ss ''TIME_NO_GROWTH'';
          ranked3 = ranked2 @
            (if 0 < length tng_students
             then [\<lparr>key = ''TIME_NO_GROWTH'',
                    count = length tng_students,
                    avg_growth = avg_growth_of tng_students,
                    students = tng_students,
                    detail_counts = Time_Counts
                      (round1 (mean (map daily_avg tng_students)))
                      (py_int (round0 (mean (map pct_expected tng_students))))
                      (length (filter (\<lambda>s. case growth s of None \<Rightarrow> False | Some g \<Rightarrow> g < 0)
                                 tng_students))\<rparr>]
             else [])
      in take 3 (sort_key (\<lambda>x. - int (count x)) ranked3))"

section \<open>Auxiliary notions and example data\<close>

text \<open>The XP held by the five category accumulators together.\<close>

definition acc_total :: "xp_acc \<Rightarrow> rat" where
  "acc_total acc = acc_instr acc + acc_practice acc + acc_testing acc + acc_elit acc + acc_admin acc"


text \<open>A middle-school student of age grade 6 with the given MAP HMG.\<close>

definition example_row :: "rat option \<Rightarrow> map_row" where
  "example_row h =
     \<lparr>Email = ''s1@example.org'', Level = ''MS'', HMG = h, Age_Grade = Some 6, Growth_FW = Some 2\<rparr>"

text \<open>A reading test of that student: grade, score and day of submission.\<close>

definition attempt :: "int \<Rightarrow> rat option \<Rightarrow> int \<Rightarrow> result_row" where
  "attempt g s d =
     \<lparr>student_email = ''s1@example.org'', subject = ''Reading'', score = s, test_grade = Some g,
      score_date_utc = Some d\<rparr>"


text \<open>
  A computed metrics record with the given email, issue list, percent of expected time and
  growth; \<^verbatim>\<open>detect_systemic_issues\<close> reads these, the daily average and the doom loop
  marker.
\<close>

definition flagged_student :: "string \<Rightarrow> string list \<Rightarrow> rat \<Rightarrow> rat option \<Rightarrow> student_metrics" where
  "flagged_student e is p g =
     \<lparr>email = e, level = ''MS'', hmg = Some 5, growth = g, gap = Some (- 1),
      has_daily_data = True, total_active_minutes = p * 43 / 2, total_xp = 1000,
      pct_expected = p, daily_avg = p / 4,
      instr_xp = 0, practice_xp = 0, testing_xp = 0, elit_xp = 0, admin_xp = 0,
      pct_instr = 0, pct_practice = 0, pct_testing = 0,
      has_test_data = False, total_tests = 0, eff_tests = 0, eff_rate = 0,
      hmg_plus1_total = 0, hmg_plus1_passed = 0, hmg_plus1_eff_rate = 0,
      doom_grades = [], doom_loop_above_hmg = (''DOOM_LOOP'' \<in> set is), issues = is\<rparr>"

section \<open>Basic facts\<close>

lemma bind_err_Inr: "bind_err (Inr v) f = f v"
  by (simp add: bind_err_def)

lemma pct_of_nonzero: "b \<noteq> 0 \<Longrightarrow> pct_of a b = Inr (round1 (a / b * 100))"
  by (simp add: pct_of_def py_div_def bind_err_def)

lemma set_map_filter:
  "set (List.map_filter f xs) = {y. \<exists>x\<in>set xs. f x = Some y}"
  by (induction xs) (auto split: option.splits)

lemma date_values:
  "date 2025 8 14 = 739477" "date 2026 1 23 = 739639" "date 2026 2 1 = 739648"
  "date 2026 3 2 = 739677" "date 2025 9 2 = 739496"
  by (simp_all add: date_def days_before_year_def days_before_month_def is_leap_def)

text \<open>The term starts on a Thursday and ends on a Friday.\<close>

lemma term_weekdays: "weekday START_DATE = 3" "weekday END_DATE = 4"
  by (simp_all add: START_DATE_def END_DATE_def date_values weekday_def)

subsection \<open>Rounding\<close>






subsection \<open>XP totals\<close>

lemma add_to_group_sum: "sum_list (map snd (add_to_group a x gs)) = sum_list (map snd gs) + x"
  by (induction gs) auto

lemma app_groups_sum_aux:
  "sum_list (map snd (foldl (\<lambda>gs r. case app r of None \<Rightarrow> gs
                                     | Some a \<Rightarrow> add_to_group a (XP_Earned r) gs) gs0 daily))
     = sum_list (map snd gs0) + sum_list (map XP_Earned (filter (\<lambda>r. app r \<noteq> None) daily))"
  by (induction daily arbitrary: gs0) (auto simp: add_to_group_sum split: option.splits)

lemma app_groups_sum:
  "sum_list (map snd (app_groups daily)) = sum_list (map XP_Earned (filter (\<lambda>r. app r \<noteq> None) daily))"
  by (simp add: app_groups_def app_groups_sum_aux)

lemma add_app_xp_total: "acc_total (add_app_xp acc ag) = acc_total acc + snd ag"
  by (simp add: add_app_xp_def acc_total_def Let_def)

lemma foldl_add_app_xp_total:
  "acc_total (foldl add_app_xp acc gs) = acc_total acc + sum_list (map snd gs)"
  by (induction gs arbitrary: acc) (simp_all add: add_app_xp_total)

lemma category_xp_total:
  "acc_total (category_xp daily) = sum_list (map XP_Earned (filter (\<lambda>r. app r \<noteq> None) daily))"
  using foldl_add_app_xp_total
    [of "\<lparr>acc_instr = 0, acc_practice = 0, acc_testing = 0, acc_elit = 0, acc_admin = 0\<rparr>"
        "app_groups daily"]
  by (cases daily) (simp_all add: category_xp_def acc_total_def app_groups_sum)


subsection \<open>The guarded quotients of \<^verbatim>\<open>compute_student_metrics\<close>\<close>

lemma guarded_pct_rat:
  "(if 0 < b then pct_of a b else Inr 0) = Inr (if 0 < b then round1 (a / b * 100) else 0)"
  by (simp add: pct_of_nonzero)

lemma guarded_pct_int:
  "(if 0 < (n::int) then pct_of a (of_int n) else Inr 0)
     = Inr (if 0 < n then round1 (a / of_int n * 100) else 0)"
  by (simp add: pct_of_nonzero)

lemma guarded_pct_nat:
  "(if 0 < (n::nat) then pct_of a (of_nat n) else Inr 0)
     = Inr (if 0 < n then round1 (a / of_nat n * 100) else 0)"
  by (simp add: pct_of_nonzero)

lemma guarded_avg_int:
  "(if 0 < (n::int) then bind_err (py_div a (of_int n)) (\<lambda>q. Inr (round1 q)) else Inr 0)
     = Inr (if 0 < n then round1 (a / of_int n) else 0)"
  by (simp add: py_div_def bind_err_def)

text \<open>The function always returns a record; these are the fields the theorems below look at.\<close>

lemma compute_student_metrics_fields:
  "\<exists>m. compute_student_metrics row daily td ed em = Inr m
     \<and> doom_grades m = doom_grades_of td
     \<and> hmg m = resolve_hmg (HMG row) td
     \<and> total_tests m = length td
     \<and> eff_tests m = length (filter passed td)
     \<and> eff_rate m = (if td = [] then 0
          else round1 (of_nat (length (filter passed td)) / of_nat (length td) * 100))
     \<and> pct_expected m = (if 0 < em then round1 (sum_list (map Active_Minutes daily) / of_int em * 100) else 0)
     \<and> daily_avg m = (if 0 < ed then round1 (sum_list (map Active_Minutes daily) / of_int ed) else 0)
     \<and> pct_instr m = (if 0 < sum_list (map XP_Earned daily)
          then round1 (acc_instr (category_xp daily) / sum_list (map XP_Earned daily) * 100) else 0)
     \<and> pct_practice m = (if 0 < sum_list (map XP_Earned daily)
          then round1 (acc_practice (category_xp daily) / sum_list (map XP_Earned daily) * 100) else 0)
     \<and> pct_testing m = (if 0 < sum_list (map XP_Earned daily)
          then round1 (acc_testing (category_xp daily) / sum_list (map XP_Earned daily) * 100) else 0)
     \<and> hmg_plus1_total m = fst (hmg_plus1_counts (resolve_hmg (HMG row) td) td)
     \<and> hmg_plus1_passed m = snd (hmg_plus1_counts (resolve_hmg (HMG row) td) td)
     \<and> hmg_plus1_eff_rate m = (if 0 < fst (hmg_plus1_counts (resolve_hmg (HMG row) td) td)
          then round1 (of_nat (snd (hmg_plus1_counts (resolve_hmg (HMG row) td) td))
                       / of_nat (fst (hmg_plus1_counts (resolve_hmg (HMG row) td) td)) * 100) else 0)"
  unfolding compute_student_metrics_def Let_def guarded_pct_rat guarded_pct_int guarded_pct_nat
    guarded_avg_int bind_err_Inr
  by (cases daily; cases td) simp_all

text \<open>The issue flags of the record, and that the two instruction flags exclude each other.\<close>

lemma compute_student_metrics_flags:
  "\<exists>m. compute_student_metrics row daily td ed em = Inr m
     \<and> hmg m = resolve_hmg (HMG row) td
     \<and> doom_grades m = doom_grades_of td
     \<and> doom_loop_above_hmg m = doom_above_hmg (resolve_hmg (HMG row) td) (doom_grades_of td)
     \<and> issues m = detect_issues (resolve_hmg (HMG row) td) (daily \<noteq> [])
          (if daily \<noteq> [] then app_groups daily else []) (pct_testing m) (doom_grades_of td)
          (pct_expected m) (Growth_FW row)
          (case resolve_hmg (HMG row) td of None \<Rightarrow> None
           | Some v \<Rightarrow> (case Age_Grade row of None \<Rightarrow> None | Some a \<Rightarrow> Some (v - a)))
          (hmg_plus1_total m) (hmg_plus1_eff_rate m)"
  unfolding compute_student_metrics_def Let_def guarded_pct_rat guarded_pct_int guarded_pct_nat
    guarded_avg_int bind_err_Inr
  by (cases daily; cases td) simp_all

lemma instruction_flags_exclusive:
  "\<not> (''NEEDS_HS_INSTRUCTION'' \<in> set (detect_issues h has_d ab pt dg pe gr gp n r)
      \<and> ''NEEDS_MM_INSTRUCTION'' \<in> set (detect_issues h has_d ab pt dg pe gr gp n r))"
  by (auto simp: detect_issues_def instruction_issues_def Let_def split: option.splits if_splits)

lemma compute_student_metrics_one_instruction_flag:
  "\<exists>m. compute_student_metrics row daily td ed em = Inr m
     \<and> \<not> (''NEEDS_HS_INSTRUCTION'' \<in> set (issues m) \<and> ''NEEDS_MM_INSTRUCTION'' \<in> set (issues m))"
  using compute_student_metrics_flags [of row daily td ed em]
proof (elim exE conjE)
  fix m
  assume m: "compute_student_metrics row daily td ed em = Inr m"
    and i: "issues m = detect_issues (resolve_hmg (HMG row) td) (daily \<noteq> [])
          (if daily \<noteq> [] then app_groups daily else []) (pct_testing m) (doom_grades_of td)
          (pct_expected m) (Growth_FW row)
          (case resolve_hmg (HMG row) td of None \<Rightarrow> None
           | Some v \<Rightarrow> (case Age_Grade row of None \<Rightarrow> None | Some a \<Rightarrow> Some (v - a)))
          (hmg_plus1_total m) (hmg_plus1_eff_rate m)"
  have "\<not> (''NEEDS_HS_INSTRUCTION'' \<in> set (issues m) \<and> ''NEEDS_MM_INSTRUCTION'' \<in> set (issues m))"
    unfolding i by (rule instruction_flags_exclusive)
  with m show ?thesis by (intro exI [of _ m] conjI)
qed

section \<open>The app categoriser\<close>

text \<open>
  C4 (as amended). In \<^verbatim>\<open>generate_crm.py\<close>, an app name that is in none of the five
  tables is categorised as Admin/Other; the categoriser never answers \<open>Unknown\<close>; the XP
  of such an app is added to the Admin/Other total, and the five category totals together
  hold the XP of every daily row that has an app name.
\<close>

theorem categorize_app_defaults_to_admin:
  "(app_name \<notin> INSTRUCTION_APPS \<union> PRACTICE_APPS \<union> TESTING_APPS \<union> EARLY_LIT_APPS \<union> ADMIN_APPS
      \<longrightarrow> categorize_app app_name = ''Admin/Other''
          \<and> add_app_xp acc (app_name, x) = acc\<lparr>acc_admin := acc_admin acc + x\<rparr>)
   \<and> categorize_app app_name \<noteq> ''Unknown''
   \<and> acc_total (category_xp daily) = sum_list (map XP_Earned (filter (\<lambda>r. app r \<noteq> None) daily))"
  by (simp add: categorize_app_def add_app_xp_def category_xp_total)

theorem categorize_app_defaults_to_admin_witness:
  "''Khan Academy'' \<notin> INSTRUCTION_APPS \<union> PRACTICE_APPS \<union> TESTING_APPS \<union> EARLY_LIT_APPS \<union> ADMIN_APPS
   \<and> categorize_app ''Khan Academy'' = ''Admin/Other''
   \<and> acc_admin (add_app_xp \<lparr>acc_instr = 0, acc_practice = 0, acc_testing = 0, acc_elit = 0,
                              acc_admin = 10\<rparr> (''Khan Academy'', 120)) = 130"
proof -
  have notin: "''Khan Academy'' \<notin> INSTRUCTION_APPS \<union> PRACTICE_APPS \<union> TESTING_APPS \<union> EARLY_LIT_APPS \<union> ADMIN_APPS"
    by (simp add: INSTRUCTION_APPS_def PRACTICE_APPS_def TESTING_APPS_def EARLY_LIT_APPS_def
        ADMIN_APPS_def)
  with categorize_app_defaults_to_admin
    [of "''Khan Academy''"
        "\<lparr>acc_instr = 0, acc_practice = 0, acc_testing = 0, acc_elit = 0, acc_admin = 10\<rparr>" 120 "[]"]
  show ?thesis by simp
qed

text \<open>
  The categoriser of \<^verbatim>\<open>analyze_low_growth.py\<close> answers \<open>Unknown\<close> for a name that is in
  none of its tables.
\<close>

theorem categorize_app_low_growth_unknown:
  "''Khan Academy'' \<notin> INSTRUCTION_APPS_low_growth \<union> TESTING_APPS_low_growth
       \<union> EARLY_LIT_APPS_low_growth \<union> ADMIN_APPS_low_growth
   \<and> categorize_app_low_growth ''Khan Academy'' = ''Unknown''"
  by (simp add: categorize_app_low_growth_def INSTRUCTION_APPS_low_growth_def
      TESTING_APPS_low_growth_def EARLY_LIT_APPS_low_growth_def ADMIN_APPS_low_growth_def)

section \<open>The school calendar\<close>

text \<open>
  C5 (as amended). For a term whose start date is after its end date the calculation
  finds no school day at all; the fixed deduction of one day for the two half-days still
  applies, so the effective days are \<open>-1\<close> and the expected minutes \<open>-25\<close>. The function is
  total on these inputs: nothing is raised.
\<close>

theorem compute_school_days_reversed:
  "end_date < start_date \<Longrightarrow> compute_school_days start_date end_date = (- 1, - 25, [])"
  by (simp add: compute_school_days_def EXPECTED_DAILY_MINUTES_def)

theorem compute_school_days_reversed_witness:
  "START_DATE < END_DATE \<and> compute_school_days END_DATE START_DATE = (- 1, - 25, [])"
proof -
  have swapped: "START_DATE < END_DATE"
    by (simp add: START_DATE_def END_DATE_def date_values)
  from compute_school_days_reversed [OF swapped] swapped show ?thesis by simp
qed

text \<open>The claim as stated asks for zero days; a term from 2 March back to 23 January gives \<open>-1\<close>.\<close>

theorem compute_school_days_reversed_not_zero:
  "date 2026 1 23 < date 2026 3 2
   \<and> fst (compute_school_days (date 2026 3 2) (date 2026 1 23)) = - 1
   \<and> fst (snd (compute_school_days (date 2026 3 2) (date 2026 1 23))) = - 25"
  by (simp add: compute_school_days_def EXPECTED_DAILY_MINUTES_def date_values)

section \<open>Doom loop grades\<close>

lemma grades_passed_iff:
  "g \<in> grades_passed td \<longleftrightarrow> (\<exists>tr\<in>set td. passed tr \<and> test_grade tr = Some g)"
  by (auto simp: grades_passed_def set_map_filter)

lemma grade_fails_iff:
  "(g, n) \<in> set (grade_fails td) \<longleftrightarrow>
     (\<exists>tr\<in>set td. below_threshold tr \<and> test_grade tr = Some g)
     \<and> n = length (filter (\<lambda>tr. below_threshold tr \<and> test_grade tr = Some g) td)"
  by (auto simp: grade_fails_def Let_def set_map_filter conj_commute)

lemma three_in_filter:
  assumes "3 \<le> length (filter P xs)"
  shows "\<exists>x\<in>set xs. P x"
proof -
  from assms have "filter P xs \<noteq> []" by auto
  then show ?thesis by (simp add: filter_empty_conv)
qed

lemma doom_grades_of_iff:
  "g \<in> set (doom_grades_of td) \<longleftrightarrow>
     3 \<le> length (filter (\<lambda>tr. below_threshold tr \<and> test_grade tr = Some g) td)
     \<and> \<not> (\<exists>tr\<in>set td. passed tr \<and> test_grade tr = Some g)"
proof (cases "td = []")
  case True
  then show ?thesis by (simp add: doom_grades_of_def)
next
  case False
  have "g \<in> set (doom_grades_of td) \<longleftrightarrow>
      g \<notin> grades_passed td \<and> (\<exists>n. (g, n) \<in> set (grade_fails td) \<and> 3 \<le> n)"
    using False by (force simp: doom_grades_of_def)
  also have "\<dots> \<longleftrightarrow> 3 \<le> length (filter (\<lambda>tr. below_threshold tr \<and> test_grade tr = Some g) td)
     \<and> \<not> (\<exists>tr\<in>set td. passed tr \<and> test_grade tr = Some g)"
    using three_in_filter [of "\<lambda>tr. below_threshold tr \<and> test_grade tr = Some g" td]
    by (auto simp: grade_fails_iff grades_passed_iff)
  finally show ?thesis .
qed


text \<open>
  C1 (as amended). In the metrics computed by \<^verbatim>\<open>generate_crm.py\<close>, a test grade with
  three or more failing attempts (a score below the pass threshold) is among the student's
  doom loop grades if and only if the student has no passing attempt at that grade. With
  attempts fail, fail, fail, pass at grade 5 the grade is not reported; with fail, fail,
  fail it is.
\<close>

theorem doom_grade_iff_never_passed:
  "\<exists>m. compute_student_metrics row daily td ed em = Inr m
     \<and> (3 \<le> length (filter (\<lambda>tr. below_threshold tr \<and> test_grade tr = Some g) td)
          \<longrightarrow> (g \<in> set (doom_grades m) \<longleftrightarrow> \<not> (\<exists>tr\<in>set td. passed tr \<and> test_grade tr = Some g)))"
proof -
  from compute_student_metrics_fields [of row daily td ed em]
  obtain m where "compute_student_metrics row daily td ed em = Inr m"
    and "doom_grades m = doom_grades_of td" by blast
  then show ?thesis by (auto simp: doom_grades_of_iff)
qed

theorem doom_grade_iff_never_passed_witness:
  "(\<exists>m. compute_student_metrics (example_row (Some 4)) []
          [attempt 5 (Some 60) (date 2025 9 2), attempt 5 (Some 72) (date 2025 9 2),
           attempt 5 (Some 85) (date 2025 9 2), attempt 5 (Some 93) (date 2025 9 2)] 86 2150 = Inr m
        \<and> 5 \<notin> set (doom_grades m))
   \<and> (\<exists>m. compute_student_metrics (example_row (Some 4)) []
          [attempt 5 (Some 60) (date 2025 9 2), attempt 5 (Some 72) (date 2025 9 2),
           attempt 5 (Some 85) (date 2025 9 2)] 86 2150 = Inr m
        \<and> 5 \<in> set (doom_grades m))"
proof
  show "\<exists>m. compute_student_metrics (example_row (Some 4)) []
          [attempt 5 (Some 60) (date 2025 9 2), attempt 5 (Some 72) (date 2025 9 2),
           attempt 5 (Some 85) (date 2025 9 2), attempt 5 (Some 93) (date 2025 9 2)] 86 2150 = Inr m
        \<and> 5 \<notin> set (doom_grades m)"
    using doom_grade_iff_never_passed [of "example_row (Some 4)" "[]"
        "[attempt 5 (Some 60) (date 2025 9 2), attempt 5 (Some 72) (date 2025 9 2),
           attempt 5 (Some 85) (date 2025 9 2), attempt 5 (Some 93) (date 2025 9 2)]" 86 2150 5]
    by (simp add: attempt_def below_threshold_def passed_def PASS_THRESHOLD_def)
  show "\<exists>m. compute_student_metrics (example_row (Some 4)) []
          [attempt 5 (Some 60) (date 2025 9 2), attempt 5 (Some 72) (date 2025 9 2),
           attempt 5 (Some 85) (date 2025 9 2)] 86 2150 = Inr m
        \<and> 5 \<in> set (doom_grades m)"
    using doom_grade_iff_never_passed [of "example_row (Some 4)" "[]"
        "[attempt 5 (Some 60) (date 2025 9 2), attempt 5 (Some 72) (date 2025 9 2),
           attempt 5 (Some 85) (date 2025 9 2)]" 86 2150 5]
    by (simp add: attempt_def below_threshold_def passed_def PASS_THRESHOLD_def)
qed

text \<open>
  The low-growth analysis script reports every grade whose highest attempt number is at
  least 3, also when the fourth attempt at that grade passed.
\<close>

theorem doom_loop_grades_low_growth_passed:
  "doom_loop_grades
     [\<lparr>Test_Grade = Some 5, Test_Attempt = Some 1, Effective_Test = Some 0\<rparr>,
      \<lparr>Test_Grade = Some 5, Test_Attempt = Some 2, Effective_Test = Some 0\<rparr>,
      \<lparr>Test_Grade = Some 5, Test_Attempt = Some 3, Effective_Test = Some 0\<rparr>,
      \<lparr>Test_Grade = Some 5, Test_Attempt = Some 4, Effective_Test = Some 1\<rparr>] = [5]"
  by (simp add: doom_loop_grades_def attempts_by_grade_def max_opt_def)

section \<open>HMG resolution\<close>

lemma max_test_grade_Some:
  assumes "max_test_grade rows = Some g"
  shows "(\<exists>tr\<in>set rows. test_grade tr = Some g)
       \<and> (\<forall>tr\<in>set rows. \<forall>g'. test_grade tr = Some g' \<longrightarrow> g' \<le> g)"
proof -
  from assms obtain a gs where ags: "List.map_filter test_grade rows = a # gs"
    and g: "g = fold max gs a"
    by (auto simp: max_test_grade_def split: list.splits)
  have gM: "g = Max (set (a # gs))" by (simp only: g Max.set_eq_fold)
  have "g \<in> set (a # gs)" unfolding gM by (rule Max_in) simp_all
  moreover have "\<And>g'. g' \<in> set (a # gs) \<Longrightarrow> g' \<le> g" unfolding gM by (rule Max_ge) simp_all
  ultimately show ?thesis
    unfolding ags [symmetric] set_map_filter by blast
qed

lemma resolve_hmg_plausible: "1 < h \<Longrightarrow> resolve_hmg (Some h) td = Some h"
  by (simp add: resolve_hmg_def)

lemma resolve_hmg_changed:
  assumes "resolve_hmg h0 td \<noteq> h0"
  shows "(h0 = None \<or> (\<exists>h. h0 = Some h \<and> h \<le> 1))
       \<and> (\<exists>g. resolve_hmg h0 td = Some (of_int g)
              \<and> (\<exists>tr\<in>set td. passed tr \<and> test_grade tr = Some g)
              \<and> (\<forall>tr\<in>set td. \<forall>g'. passed tr \<and> test_grade tr = Some g' \<longrightarrow> g' \<le> g))"
proof -
  from assms have c: "(case h0 of None \<Rightarrow> True | Some h \<Rightarrow> h \<le> 1)"
    and r: "resolve_hmg h0 td = map_option of_int (max_test_grade (filter passed td))"
    by (auto simp: resolve_hmg_def Let_def split: if_splits)
  from assms r obtain g where g: "max_test_grade (filter passed td) = Some g"
    by (cases "max_test_grade (filter passed td)")
      (auto simp: resolve_hmg_def Let_def split: if_splits option.splits)
  from max_test_grade_Some [OF g] c r g show ?thesis
    by (auto split: option.splits)
qed

lemma resolve_hmg_not_lower:
  "\<exists>h'. resolve_hmg (Some h) td = Some h' \<and> h \<le> h'"
  by (auto simp: resolve_hmg_def Let_def split: option.splits)

lemma resolve_hmg_examples:
  "resolve_hmg (Some 6) [attempt 4 (Some 92) d, attempt 5 (Some 95) d] = Some 6"
  "resolve_hmg (Some 1) [attempt 7 (Some 91) d] = Some 7"
  by (simp_all add: resolve_hmg_def attempt_def passed_def PASS_THRESHOLD_def max_test_grade_def)

text \<open>
  C2. The resolved HMG is the spreadsheet HMG whenever that is present and greater than 1.
  It differs from the spreadsheet value only if that is missing or at most 1 and there are
  passing attempts, and then it is the greatest test grade among the passing attempts. A
  spreadsheet value that is present is never lowered. Spreadsheet HMG 6 with passes at
  grades 4 and 5 stays 6; spreadsheet HMG 1 with a pass at grade 7 becomes 7.
\<close>

theorem hmg_fallback_resolution:
  "\<exists>m. compute_student_metrics row daily td ed em = Inr m
     \<and> (\<forall>h. HMG row = Some h \<and> 1 < h \<longrightarrow> hmg m = Some h)
     \<and> (hmg m \<noteq> HMG row \<longrightarrow>
          (HMG row = None \<or> (\<exists>h. HMG row = Some h \<and> h \<le> 1))
          \<and> (\<exists>g. hmg m = Some (of_int g)
                \<and> (\<exists>tr\<in>set td. passed tr \<and> test_grade tr = Some g)
                \<and> (\<forall>tr\<in>set td. \<forall>g'. passed tr \<and> test_grade tr = Some g' \<longrightarrow> g' \<le> g)))
     \<and> (\<forall>h. HMG row = Some h \<longrightarrow> (\<exists>h'. hmg m = Some h' \<and> h \<le> h'))"
proof -
  from compute_student_metrics_fields [of row daily td ed em]
  obtain m where m: "compute_student_metrics row daily td ed em = Inr m"
    and h: "hmg m = resolve_hmg (HMG row) td" by (elim exE conjE)
  have "\<forall>h. HMG row = Some h \<and> 1 < h \<longrightarrow> hmg m = Some h"
    by (simp add: h resolve_hmg_plausible)
  moreover have "hmg m \<noteq> HMG row \<longrightarrow>
          (HMG row = None \<or> (\<exists>h. HMG row = Some h \<and> h \<le> 1))
          \<and> (\<exists>g. hmg m = Some (of_int g)
                \<and> (\<exists>tr\<in>set td. passed tr \<and> test_grade tr = Some g)
                \<and> (\<forall>tr\<in>set td. \<forall>g'. passed tr \<and> test_grade tr = Some g' \<longrightarrow> g' \<le> g))"
    unfolding h using resolve_hmg_changed [of "HMG row" td] by blast
  moreover have "\<forall>h. HMG row = Some h \<longrightarrow> (\<exists>h'. hmg m = Some h' \<and> h \<le> h')"
    unfolding h using resolve_hmg_not_lower by simp
  ultimately show ?thesis using m by (intro exI [of _ m]) simp
qed

theorem hmg_fallback_resolution_witness:
  "(\<exists>m. compute_student_metrics (example_row (Some 6)) []
          [attempt 4 (Some 92) (date 2025 9 2), attempt 5 (Some 95) (date 2025 9 2)] 86 2150 = Inr m
        \<and> hmg m = Some 6)
   \<and> (\<exists>m. compute_student_metrics (example_row (Some 1)) []
          [attempt 7 (Some 91) (date 2025 9 2)] 86 2150 = Inr m
        \<and> hmg m = Some 7 \<and> hmg m \<noteq> HMG (example_row (Some 1)))"
proof
  show "\<exists>m. compute_student_metrics (example_row (Some 6)) []
          [attempt 4 (Some 92) (date 2025 9 2), attempt 5 (Some 95) (date 2025 9 2)] 86 2150 = Inr m
        \<and> hmg m = Some 6"
    using hmg_fallback_resolution [of "example_row (Some 6)" "[]"
        "[attempt 4 (Some 92) (date 2025 9 2), attempt 5 (Some 95) (date 2025 9 2)]" 86 2150]
    by (auto simp: example_row_def)
  from hmg_fallback_resolution [of "example_row (Some 1)" "[]"
        "[attempt 7 (Some 91) (date 2025 9 2)]" 86 2150]
  obtain m where m: "compute_student_metrics (example_row (Some 1)) []
          [attempt 7 (Some 91) (date 2025 9 2)] 86 2150 = Inr m"
    by (elim exE conjE)
  from compute_student_metrics_fields [of "example_row (Some 1)" "[]"
        "[attempt 7 (Some 91) (date 2025 9 2)]" 86 2150] m
  have "hmg m = resolve_hmg (HMG (example_row (Some 1))) [attempt 7 (Some 91) (date 2025 9 2)]"
    by (elim exE conjE) simp
  then have "hmg m = Some 7 \<and> hmg m \<noteq> HMG (example_row (Some 1))"
    by (simp add: example_row_def resolve_hmg_examples)
  with m show "\<exists>m. compute_student_metrics (example_row (Some 1)) []
          [attempt 7 (Some 91) (date 2025 9 2)] 86 2150 = Inr m
        \<and> hmg m = Some 7 \<and> hmg m \<noteq> HMG (example_row (Some 1))"
    by blast
qed

section \<open>XP category percentages\<close>










section \<open>No division by zero\<close>

text \<open>
  C8. \<^verbatim>\<open>compute_student_metrics\<close> never reaches a zero divisor: it always returns a
  record, in which percent of expected is 0 when the expected minutes are 0, the daily
  average is 0 when the effective days are 0, the XP category percentages are 0 when the
  total XP is 0, and the effective test rates, overall and at HMG+1, are 0 when the
  respective number of attempts is 0.
\<close>

theorem no_division_by_zero:
  "\<exists>m. compute_student_metrics row daily td ed em = Inr m
     \<and> (em = 0 \<longrightarrow> pct_expected m = 0)
     \<and> (ed = 0 \<longrightarrow> daily_avg m = 0)
     \<and> (sum_list (map XP_Earned daily) = 0 \<longrightarrow>
          pct_instr m = 0 \<and> pct_practice m = 0 \<and> pct_testing m = 0)
     \<and> (total_tests m = 0 \<longrightarrow> eff_rate m = 0)
     \<and> (hmg_plus1_total m = 0 \<longrightarrow> hmg_plus1_eff_rate m = 0)"
  using compute_student_metrics_fields [of row daily td ed em]
proof (elim exE conjE)
  fix m
  assume m: "compute_student_metrics row daily td ed em = Inr m"
    and f: "total_tests m = length td"
      "eff_rate m = (if td = [] then 0
          else round1 (of_nat (length (filter passed td)) / of_nat (length td) * 100))"
      "pct_expected m = (if 0 < em then round1 (sum_list (map Active_Minutes daily) / of_int em * 100) else 0)"
      "daily_avg m = (if 0 < ed then round1 (sum_list (map Active_Minutes daily) / of_int ed) else 0)"
      "pct_instr m = (if 0 < sum_list (map XP_Earned daily)
          then round1 (acc_instr (category_xp daily) / sum_list (map XP_Earned daily) * 100) else 0)"
      "pct_practice m = (if 0 < sum_list (map XP_Earned daily)
          then round1 (acc_practice (category_xp daily) / sum_list (map XP_Earned daily) * 100) else 0)"
      "pct_testing m = (if 0 < sum_list (map XP_Earned daily)
          then round1 (acc_testing (category_xp daily) / sum_list (map XP_Earned daily) * 100) else 0)"
      "hmg_plus1_total m = fst (hmg_plus1_counts (resolve_hmg (HMG row) td) td)"
      "hmg_plus1_eff_rate m = (if 0 < fst (hmg_plus1_counts (resolve_hmg (HMG row) td) td)
          then round1 (of_nat (snd (hmg_plus1_counts (resolve_hmg (HMG row) td) td))
                       / of_nat (fst (hmg_plus1_counts (resolve_hmg (HMG row) td) td)) * 100) else 0)"
  have "em = 0 \<longrightarrow> pct_expected m = 0" by (simp add: f)
  moreover have "ed = 0 \<longrightarrow> daily_avg m = 0" by (simp add: f)
  moreover have "sum_list (map XP_Earned daily) = 0 \<longrightarrow>
          pct_instr m = 0 \<and> pct_practice m = 0 \<and> pct_testing m = 0" by (simp add: f)
  moreover have "total_tests m = 0 \<longrightarrow> eff_rate m = 0" by (simp add: f)
  moreover have "hmg_plus1_total m = 0 \<longrightarrow> hmg_plus1_eff_rate m = 0" by (simp add: f)
  ultimately show ?thesis using m by (intro exI [of _ m]) simp
qed

theorem no_division_by_zero_witness:
  "\<exists>m. compute_student_metrics (example_row None) [] [] 0 0 = Inr m
     \<and> pct_expected m = 0 \<and> daily_avg m = 0
     \<and> pct_instr m = 0 \<and> pct_practice m = 0 \<and> pct_testing m = 0
     \<and> total_tests m = 0 \<and> eff_rate m = 0 \<and> hmg_plus1_total m = 0 \<and> hmg_plus1_eff_rate m = 0"
  using no_division_by_zero [of "example_row None" "[]" "[]" 0 0]
proof (elim exE conjE)
  fix m
  assume m: "compute_student_metrics (example_row None) [] [] 0 0 = Inr m"
    and z: "(0::int) = 0 \<longrightarrow> pct_expected m = 0" "(0::int) = 0 \<longrightarrow> daily_avg m = 0"
      "sum_list (map XP_Earned []) = 0 \<longrightarrow>
          pct_instr m = 0 \<and> pct_practice m = 0 \<and> pct_testing m = 0"
      "total_tests m = 0 \<longrightarrow> eff_rate m = 0"
      "hmg_plus1_total m = 0 \<longrightarrow> hmg_plus1_eff_rate m = 0"
  from compute_student_metrics_fields [of "example_row None" "[]" "[]" 0 0] m
  have "total_tests m = 0 \<and> hmg_plus1_total m = 0"
    by (elim exE conjE) (simp add: hmg_plus1_counts_def split: option.splits)
  with z show ?thesis using m by (intro exI [of _ m]) simp
qed

section \<open>Attempts without a score\<close>


lemma filter_drop_one: "\<not> P t \<Longrightarrow> filter P (xs @ t # ys) = filter P (xs @ ys)"
  by simp






section \<open>The test results that are used\<close>

text \<open>
  C7 (as amended). The test results used for a student are exactly the rows of the export
  with the student's email, subject Reading and a submission date on or after the first day
  of term, 14 August 2025; rows of another subject, with an earlier date or with no readable
  date are dropped, and the student's total test count is the number of the rows kept.
  There is no cut-off at the end of term.
\<close>

theorem reading_results_window:
  "results_by_email (load_reading_results df) e
     = filter (\<lambda>r. student_email r = e \<and> subject r = ''Reading''
                 \<and> (case score_date_utc r of None \<Rightarrow> False | Some d \<Rightarrow> START_DATE \<le> d)) df
   \<and> (r \<in> set (load_reading_results df) \<longleftrightarrow>
        r \<in> set df \<and> subject r = ''Reading'' \<and> (\<exists>d. score_date_utc r = Some d \<and> START_DATE \<le> d))
   \<and> (\<exists>m. compute_student_metrics row daily
             (results_by_email (load_reading_results df) (Email row)) ed em = Inr m
          \<and> total_tests m
             = length (filter (\<lambda>r. student_email r = Email row \<and> subject r = ''Reading''
                 \<and> (case score_date_utc r of None \<Rightarrow> False | Some d \<Rightarrow> START_DATE \<le> d)) df))"
proof (intro conjI)
  show eq: "results_by_email (load_reading_results df) e
     = filter (\<lambda>r. student_email r = e \<and> subject r = ''Reading''
                 \<and> (case score_date_utc r of None \<Rightarrow> False | Some d \<Rightarrow> START_DATE \<le> d)) df" for e
    unfolding results_by_email_def load_reading_results_def START_DATE_def filter_filter
    by (rule filter_cong) auto
  show "r \<in> set (load_reading_results df) \<longleftrightarrow>
        r \<in> set df \<and> subject r = ''Reading'' \<and> (\<exists>d. score_date_utc r = Some d \<and> START_DATE \<le> d)"
    by (auto simp: load_reading_results_def START_DATE_def split: option.splits)
  from compute_student_metrics_fields
    [of row daily "results_by_email (load_reading_results df) (Email row)" ed em]
  obtain m where m: "compute_student_metrics row daily
             (results_by_email (load_reading_results df) (Email row)) ed em = Inr m"
    and t: "total_tests m = length (results_by_email (load_reading_results df) (Email row))"
    by (elim exE conjE)
  from m t show "\<exists>m. compute_student_metrics row daily
             (results_by_email (load_reading_results df) (Email row)) ed em = Inr m
          \<and> total_tests m
             = length (filter (\<lambda>r. student_email r = Email row \<and> subject r = ''Reading''
                 \<and> (case score_date_utc r of None \<Rightarrow> False | Some d \<Rightarrow> START_DATE \<le> d)) df)"
    unfolding eq by (intro exI [of _ m] conjI)
qed

text \<open>A reading test submitted on 1 February 2026, after the end of term, is kept.\<close>

theorem result_after_term_end_kept:
  "END_DATE < date 2026 2 1
   \<and> load_reading_results [attempt 5 (Some 95) (date 2026 2 1)] = [attempt 5 (Some 95) (date 2026 2 1)]
   \<and> results_by_email (load_reading_results [attempt 5 (Some 95) (date 2026 2 1)]) ''s1@example.org''
       = [attempt 5 (Some 95) (date 2026 2 1)]"
  by (simp add: END_DATE_def load_reading_results_def results_by_email_def attempt_def date_values)

section \<open>Ranking of systemic issues\<close>

text \<open>Only the two merged categories and time-without-growth are ever ranked.\<close>

lemma systemic_issue_keys:
  "e \<in> set (detect_systemic_issues ss) \<Longrightarrow>
     key e \<in> {''OVER_TESTING_DOOM'', ''MISSING_READING_INSTRUCTION'', ''TIME_NO_GROWTH''}"
  by (auto simp: detect_systemic_issues_def Let_def dest!: in_set_takeD split: if_splits)

text \<open>
  C6. With one student flagged for over-testing and two flagged for low engagement, the
  ranking holds the merged testing category with one student and nothing else: low
  engagement, with two students, is not ranked.
\<close>

theorem low_engagement_not_ranked:
  "map (\<lambda>e. (key e, count e))
     (detect_systemic_issues
        [flagged_student ''a@example.org'' [''OVER_TESTING''] 80 (Some 1),
         flagged_student ''b@example.org'' [''LOW_ENGAGEMENT''] 30 (Some 2),
         flagged_student ''c@example.org'' [''LOW_ENGAGEMENT''] 20 None])
     = [(''OVER_TESTING_DOOM'', 1)]
   \<and> length (issue_counts
        [flagged_student ''a@example.org'' [''OVER_TESTING''] 80 (Some 1),
         flagged_student ''b@example.org'' [''LOW_ENGAGEMENT''] 30 (Some 2),
         flagged_student ''c@example.org'' [''LOW_ENGAGEMENT''] 20 None] ''LOW_ENGAGEMENT'') = 2"
  by (simp add: detect_systemic_issues_def issue_counts_def dict_by_email_def flagged_student_def Let_def)

section \<open>Merged systemic issue categories\<close>


lemma filter_eq_distinct:
  "distinct xs \<Longrightarrow> filter (\<lambda>j. j = i) xs = (if i \<in> set xs then [i] else [])"
  by (induction xs) auto

lemma issue_counts_distinct:
  assumes "\<forall>t\<in>set ss. distinct (issues t)"
  shows "issue_counts ss i = filter (\<lambda>t. i \<in> set (issues t)) ss"
  using assms by (induction ss) (simp_all add: issue_counts_def filter_eq_distinct)

lemma set_update_subset: "set (AList.update k v al) \<subseteq> insert (k, v) (set al)"
  by (induction al) auto


lemma dict_fold_distinct:
  "distinct (map fst d0) \<Longrightarrow> distinct (map fst (foldl (\<lambda>d s. AList.update (email s) s d) d0 ss))"
  by (induction ss arbitrary: d0) (simp_all add: distinct_update)

lemma dict_fold_entries:
  "p \<in> set (foldl (\<lambda>d s. AList.update (email s) s d) d0 ss) \<Longrightarrow>
     p \<in> set d0 \<or> (snd p \<in> set ss \<and> fst p = email (snd p))"
proof (induction ss arbitrary: d0)
  case Nil
  then show ?case by simp
next
  case (Cons s ss)
  from Cons.IH [of "AList.update (email s) s d0"] Cons.prems
  have "p \<in> set (AList.update (email s) s d0) \<or> (snd p \<in> set ss \<and> fst p = email (snd p))"
    by simp
  with set_update_subset [of "email s" s d0] show ?case by auto
qed


lemma dict_distinct: "distinct (map fst (dict_by_email ss))"
  by (simp add: dict_by_email_def dict_fold_distinct)

lemma dict_entries: "p \<in> set (dict_by_email ss) \<Longrightarrow> snd p \<in> set ss \<and> fst p = email (snd p)"
  using dict_fold_entries [of p "[]" ss] by (simp add: dict_by_email_def)





lemma dict_values_distinct_emails: "distinct (map email (map snd (dict_by_email ss)))"
proof -
  have "map email (map snd (dict_by_email ss)) = map fst (dict_by_email ss)"
    by (auto dest: dict_entries)
  then show ?thesis by (simp only: dict_distinct)
qed











end
